theory Spec2Isabelle
  imports Main "HOL-Library.Word"
begin

section \<open>The hit-counting forwarder\<close>

text \<open>
  Both hit-counter stacks deploy a Lambda function whose code is the asset directory
  \<^verbatim>\<open>lambda\<close> with entry point \<^verbatim>\<open>hitcounter.handler\<close>. That file is not among the
  sources; the stacks only refer to it. Its behaviour is therefore taken from the
  specification (sections 3, 4.1, 7 and 8).
\<close>

text \<open>
  Modelled from the spec: the request record of \<^verbatim>\<open>lambda/hitcounter.js\<close>, "an opaque
  request record with at least a \<^verbatim>\<open>path\<close> field". The record is extensible: every
  further field of the request lives in the \<open>more\<close> part and is never inspected.
\<close>

record event =
  path :: string

text \<open>
  Modelled from the spec: the durable counter store of \<^verbatim>\<open>lambda/hitcounter.js\<close>, holding
  one Hit Record per request path, "keyed by request path (a string), holding an integer
  occurrence count". A path without a record is mapped to \<open>None\<close>.
\<close>

type_synonym hit_store = "string \<rightharpoonup> int"

text \<open>The count a store holds for a path, an absent record counting as zero.\<close>

definition hits :: "hit_store \<Rightarrow> string \<Rightarrow> int" where
  "hits s p = (case s p of None \<Rightarrow> 0 | Some n \<Rightarrow> n)"

text \<open>
  Modelled from the spec: the store's atomic increment-by-key used by
  \<^verbatim>\<open>lambda/hitcounter.js\<close>. The record "is created implicitly on first occurrence of a
  given path and incremented atomically thereafter".
\<close>

definition increment :: "string \<Rightarrow> hit_store \<Rightarrow> hit_store" where
  "increment p s = s(p \<mapsto> (case s p of None \<Rightarrow> 1 | Some n \<Rightarrow> n + 1))"

text \<open>
  Modelled from the spec: one write of \<^verbatim>\<open>lambda/hitcounter.js\<close> to the counter store.
  The store may be unavailable ("if the counter store is unavailable, the increment
  fails"); whether it is, is decided by the execution environment and is an input of the
  model: \<open>Some e\<close> is the failure \<open>e\<close> the environment produces, \<open>None\<close> is an available
  store.
\<close>

definition store_increment :: "'x option \<Rightarrow> string \<Rightarrow> hit_store \<Rightarrow> 'x + hit_store" where
  "store_increment fault p s =
     (case fault of Some e \<Rightarrow> Inl e | None \<Rightarrow> Inr (increment p s))"

text \<open>
  Modelled from the spec: the handler of \<^verbatim>\<open>lambda/hitcounter.js\<close>. "Given an incoming
  request intended for a downstream handler, durably record one occurrence for the
  request's path key, then invoke the downstream handler with the original input and
  return its output verbatim." The downstream handler is "any callable accepting a
  request record and producing a response record"; it may fail, so it returns a sum.
  "Failures in the counter store or downstream call are not caught, wrapped, or retried by
  repository code; they propagate to the caller": a failed store write ends the
  invocation with that failure, and a failed downstream call is the invocation's result
  as it is. The handler returns the caller's result together with the store it leaves.
\<close>

definition forwarder ::
  "'x option \<Rightarrow> ('a event_scheme \<Rightarrow> 'x + 'r) \<Rightarrow> 'a event_scheme \<Rightarrow> hit_store
     \<Rightarrow> ('x + 'r) \<times> hit_store" where
  "forwarder fault down ev s =
     (case store_increment fault (path ev) s of
        Inl e \<Rightarrow> (Inl e, s)
      | Inr s' \<Rightarrow> (down ev, s'))"

text \<open>
  A sequence of invocations, one after the other on the same store. Each invocation comes
  with the environment's decision about the store's availability. The results are
  returned in the order of the invocations.
\<close>

fun invocations ::
  "('a event_scheme \<Rightarrow> 'x + 'r) \<Rightarrow> ('x option \<times> 'a event_scheme) list \<Rightarrow> hit_store
     \<Rightarrow> ('x + 'r) list \<times> hit_store" where
  "invocations down [] s = ([], s)"
| "invocations down ((fault, ev) # rest) s =
     (case forwarder fault down ev s of
        (r, s') \<Rightarrow>
          (case invocations down rest s' of
             (rs, s'') \<Rightarrow> (r # rs, s'')))"

section \<open>The construct tree\<close>

text \<open>
  The stacks are constructors that add resources to a construct tree. A construct is
  identified by its path in the tree: the identifiers from the root down to the construct.
  \<^verbatim>\<open>new C(scope, id, props)\<close> creates the construct at the path of \<open>scope\<close> followed
  by \<open>cid\<close>. The tree is the explicit state of the model: a constructor takes the state
  and returns the handle of the new construct (its path) with the updated state. The
  resource classes themselves belong to the provisioning framework; the model records
  what the stacks pass to them.
\<close>

type_synonym construct_path = "string list"

text \<open>
  A value that is resolved at deployment time from a resource of the tree, or a literal
  written in the code.
\<close>

datatype token =
  Literal string
  | TableName construct_path
  | FunctionName construct_path
  | InstancePublicIp construct_path
  | InstancePrivateIp construct_path

subsection \<open>DynamoDB tables\<close>

datatype AttributeType = BINARY | NUMBER | STRING

record Attribute =
  attr_name :: string
  attr_type :: AttributeType

datatype RemovalPolicy = DESTROY | RETAIN | SNAPSHOT

datatype BillingMode = PAY_PER_REQUEST | PROVISIONED

record TableProps =
  partitionKey :: Attribute
  sortKey :: "Attribute option"
  removalPolicy :: "RemovalPolicy option"
  billingMode :: "BillingMode option"

record Table =
  table_path :: construct_path
  table_props :: TableProps

text \<open>The key attributes a table declares: the partition key, then the sort key if any.\<close>

definition keySchema :: "Table \<Rightarrow> Attribute list" where
  "keySchema t =
     partitionKey (table_props t) #
       (case sortKey (table_props t) of None \<Rightarrow> [] | Some a \<Rightarrow> [a])"

subsection \<open>Lambda functions\<close>

datatype Runtime = NODEJS_18_X

datatype Code = fromInline string | fromAsset string

record FunctionProps =
  fn_runtime :: Runtime
  fn_code :: Code
  fn_handler :: string
  fn_environment :: "(string \<times> token) list"

record Function =
  fn_path :: construct_path
  fn_props :: FunctionProps

subsection \<open>IAM grants\<close>

datatype Permission = ReadData | WriteData | InvokeFunction

record Grant =
  grantee :: construct_path
  resource :: construct_path
  permissions :: "Permission list"

subsection \<open>API Gateway\<close>

text \<open>
  \<^verbatim>\<open>LambdaRestApi\<close> takes the handler function and the optional flag \<^verbatim>\<open>proxy\<close>. Neither
  stack sets the flag.
\<close>

record LambdaRestApiProps =
  api_handler :: construct_path
  proxy :: "bool option"

record LambdaRestApi =
  api_path :: construct_path
  api_props :: LambdaRestApiProps

subsection \<open>EC2\<close>

datatype SubnetType = PUBLIC | PRIVATE_WITH_EGRESS | PRIVATE_ISOLATED

record SubnetConfiguration =
  cidrMask :: nat
  subnet_name :: string
  subnetType :: SubnetType

record VpcProps =
  ipAddresses :: string
  maxAzs :: nat
  subnetConfiguration :: "SubnetConfiguration list"
  natGateways :: nat

record Vpc =
  vpc_path :: construct_path
  vpc_props :: VpcProps

datatype Protocol = TCP | UDP | ICMP

record Port =
  protocol :: Protocol
  fromPort :: nat
  toPort :: nat

text \<open>
  The peer of a rule is a block of IPv4 addresses (base address and prefix length) or
  another security group.
\<close>

datatype Peer = CidrIPv4 "32 word" nat | SecurityGroupPeer construct_path

record IngressRule =
  peer :: Peer
  connection :: Port
  rule_description :: string

record SecurityGroup =
  sg_path :: construct_path
  sg_vpc :: construct_path
  sg_description :: string
  ingress :: "IngressRule list"

datatype AmazonLinuxGeneration =
  AMAZON_LINUX | AMAZON_LINUX_2 | AMAZON_LINUX_2022 | AMAZON_LINUX_2023

datatype MachineImage = AmazonLinuxImage AmazonLinuxGeneration

datatype InstanceClass = T2

datatype InstanceSize = MICRO

record InstanceProps =
  inst_vpc :: construct_path
  vpcSubnets :: SubnetType
  instanceType :: "InstanceClass \<times> InstanceSize"
  machineImage :: MachineImage
  securityGroup :: construct_path
  userData :: "string list"

record Instance =
  inst_path :: construct_path
  inst_props :: InstanceProps

record CfnOutput =
  out_path :: construct_path
  out_value :: "token list"

subsection \<open>The state: the resources of a stack\<close>

record Stack =
  stack_path :: construct_path
  tables :: "Table list"
  lambda_functions :: "Function list"
  grants :: "Grant list"
  restApis :: "LambdaRestApi list"
  vpcs :: "Vpc list"
  securityGroups :: "SecurityGroup list"
  instances :: "Instance list"
  outputs :: "CfnOutput list"

definition new_Stack :: "construct_path \<Rightarrow> string \<Rightarrow> Stack" where
  "new_Stack scope cid =
     \<lparr>stack_path = scope @ [cid], tables = [], lambda_functions = [], grants = [], restApis = [],
      vpcs = [], securityGroups = [], instances = [], outputs = []\<rparr>"

definition new_Table ::
  "construct_path \<Rightarrow> string \<Rightarrow> TableProps \<Rightarrow> Stack \<Rightarrow> construct_path \<times> Stack" where
  "new_Table scope cid props st =
     (scope @ [cid],
      st\<lparr>tables := tables st @ [\<lparr>table_path = scope @ [cid], table_props = props\<rparr>]\<rparr>)"

definition new_Function ::
  "construct_path \<Rightarrow> string \<Rightarrow> FunctionProps \<Rightarrow> Stack \<Rightarrow> construct_path \<times> Stack" where
  "new_Function scope cid props st =
     (scope @ [cid],
      st\<lparr>lambda_functions := lambda_functions st @ [\<lparr>fn_path = scope @ [cid], fn_props = props\<rparr>]\<rparr>)"

definition new_LambdaRestApi ::
  "construct_path \<Rightarrow> string \<Rightarrow> LambdaRestApiProps \<Rightarrow> Stack \<Rightarrow> construct_path \<times> Stack" where
  "new_LambdaRestApi scope cid props st =
     (scope @ [cid],
      st\<lparr>restApis := restApis st @ [\<lparr>api_path = scope @ [cid], api_props = props\<rparr>]\<rparr>)"

definition new_Vpc ::
  "construct_path \<Rightarrow> string \<Rightarrow> VpcProps \<Rightarrow> Stack \<Rightarrow> construct_path \<times> Stack" where
  "new_Vpc scope cid props st =
     (scope @ [cid],
      st\<lparr>vpcs := vpcs st @ [\<lparr>vpc_path = scope @ [cid], vpc_props = props\<rparr>]\<rparr>)"

text \<open>A new security group has no ingress rule.\<close>

definition new_SecurityGroup ::
  "construct_path \<Rightarrow> string \<Rightarrow> construct_path \<Rightarrow> string \<Rightarrow> Stack
     \<Rightarrow> construct_path \<times> Stack" where
  "new_SecurityGroup scope cid vpc description st =
     (scope @ [cid],
      st\<lparr>securityGroups := securityGroups st @
           [\<lparr>sg_path = scope @ [cid], sg_vpc = vpc, sg_description = description,
             ingress = []\<rparr>]\<rparr>)"

definition new_Instance ::
  "construct_path \<Rightarrow> string \<Rightarrow> InstanceProps \<Rightarrow> Stack \<Rightarrow> construct_path \<times> Stack" where
  "new_Instance scope cid props st =
     (scope @ [cid],
      st\<lparr>instances := instances st @ [\<lparr>inst_path = scope @ [cid], inst_props = props\<rparr>]\<rparr>)"

definition new_CfnOutput ::
  "construct_path \<Rightarrow> string \<Rightarrow> token list \<Rightarrow> Stack \<Rightarrow> Stack" where
  "new_CfnOutput scope cid v st =
     st\<lparr>outputs := outputs st @ [\<lparr>out_path = scope @ [cid], out_value = v\<rparr>]\<rparr>"

text \<open>The deployment-time names of a table and of a function.\<close>

definition tableName :: "construct_path \<Rightarrow> token" where
  "tableName t = TableName t"

definition functionName :: "construct_path \<Rightarrow> token" where
  "functionName f = FunctionName f"

text \<open>The grant methods add a grant for the grantee on the resource they are called on.\<close>

definition grantReadWriteData :: "construct_path \<Rightarrow> construct_path \<Rightarrow> Stack \<Rightarrow> Stack" where
  "grantReadWriteData t g st =
     st\<lparr>grants := grants st @
          [\<lparr>grantee = g, resource = t, permissions = [ReadData, WriteData]\<rparr>]\<rparr>"

definition grantInvoke :: "construct_path \<Rightarrow> construct_path \<Rightarrow> Stack \<Rightarrow> Stack" where
  "grantInvoke f g st =
     st\<lparr>grants := grants st @
          [\<lparr>grantee = g, resource = f, permissions = [InvokeFunction]\<rparr>]\<rparr>"

text \<open>Whether the grants of a stack give a principal a permission on a resource.\<close>

definition allowed :: "Stack \<Rightarrow> construct_path \<Rightarrow> Permission \<Rightarrow> construct_path \<Rightarrow> bool" where
  "allowed st g perm r =
     list_ex (\<lambda>gr. grantee gr = g \<and> resource gr = r \<and> perm \<in> set (permissions gr))
       (grants st)"

text \<open>
  \<^verbatim>\<open>addIngressRule\<close> appends a rule to the security group it is called on and leaves
  every other security group as it is.
\<close>

definition addIngressRule ::
  "construct_path \<Rightarrow> Peer \<Rightarrow> Port \<Rightarrow> string \<Rightarrow> Stack \<Rightarrow> Stack" where
  "addIngressRule sg p c description st =
     st\<lparr>securityGroups :=
          map (\<lambda>g. if sg_path g = sg
                   then g\<lparr>ingress := ingress g @
                          [\<lparr>peer = p, connection = c, rule_description = description\<rparr>]\<rparr>
                   else g)
            (securityGroups st)\<rparr>"

definition anyIpv4 :: Peer where
  "anyIpv4 = CidrIPv4 0 0"

definition tcp :: "nat \<Rightarrow> Port" where
  "tcp p = \<lparr>protocol = TCP, fromPort = p, toPort = p\<rparr>"

subsection \<open>What the framework's resources do with traffic\<close>

text \<open>
  With \<^verbatim>\<open>proxy\<close> left at its default (true), a \<^verbatim>\<open>LambdaRestApi\<close> routes every request to
  its handler, as the comment in the stack says: "Eine Standard-Route, die ALLE
  HTTP-Requests (GET, POST, etc.) an unsere Lambda weiterleitet". With \<^verbatim>\<open>proxy\<close> false
  it has only the routes added explicitly; the stacks add none.
\<close>

definition route :: "LambdaRestApi \<Rightarrow> string \<Rightarrow> string \<Rightarrow> construct_path option" where
  "route api method rpath =
     (case proxy (api_props api) of
        Some False \<Rightarrow> None
      | _ \<Rightarrow> Some (api_handler (api_props api)))"

text \<open>
  An inbound packet, as a security group sees it: protocol, destination port, source
  address, and the security groups the sending network interface belongs to.
\<close>

record packet =
  pkt_protocol :: Protocol
  pkt_port :: nat
  src_ip :: "32 word"
  src_groups :: "construct_path list"

definition peer_matches :: "Peer \<Rightarrow> packet \<Rightarrow> bool" where
  "peer_matches p pkt =
     (case p of
        CidrIPv4 base len \<Rightarrow> drop_bit (32 - len) (src_ip pkt) = drop_bit (32 - len) base
      | SecurityGroupPeer g \<Rightarrow> g \<in> set (src_groups pkt))"

definition port_matches :: "Port \<Rightarrow> packet \<Rightarrow> bool" where
  "port_matches c pkt =
     (protocol c = pkt_protocol pkt \<and> fromPort c \<le> pkt_port pkt \<and> pkt_port pkt \<le> toPort c)"

text \<open>A security group admits a packet when one of its ingress rules matches it.\<close>

definition admits :: "SecurityGroup \<Rightarrow> packet \<Rightarrow> bool" where
  "admits sg pkt =
     list_ex (\<lambda>r. peer_matches (peer r) pkt \<and> port_matches (connection r) pkt) (ingress sg)"

definition sg_admits :: "Stack \<Rightarrow> construct_path \<Rightarrow> packet \<Rightarrow> bool" where
  "sg_admits st sg pkt =
     (case find (\<lambda>g. sg_path g = sg) (securityGroups st) of
        None \<Rightarrow> False
      | Some g \<Rightarrow> admits g pkt)"

section \<open>The HitCounter construct\<close>

text \<open>
  The class \<^verbatim>\<open>HitCounter\<close> (its file imports DynamoDB and Lambda and exports
  \<^verbatim>\<open>HitCounterProps\<close>). Its constructor creates the table \<^verbatim>\<open>Hits\<close> and the function
  \<^verbatim>\<open>HitCounterHandler\<close> below itself, then grants the function read and write access to
  the table and the right to invoke the downstream function.
\<close>

record HitCounterProps =
  downstream :: construct_path

record HitCounter =
  handler :: construct_path
  table :: construct_path

definition HitCounter ::
  "construct_path \<Rightarrow> string \<Rightarrow> HitCounterProps \<Rightarrow> Stack \<Rightarrow> HitCounter \<times> Stack" where
  "HitCounter scope cid props st0 =
     (let this = scope @ [cid];
          (tbl, st1) =
            new_Table this ''Hits''
              \<lparr>partitionKey = \<lparr>attr_name = ''path'', attr_type = STRING\<rparr>,
               sortKey = None,
               removalPolicy = Some DESTROY,
               billingMode = Some PAY_PER_REQUEST\<rparr> st0;
          (fn, st2) =
            new_Function this ''HitCounterHandler''
              \<lparr>fn_runtime = NODEJS_18_X,
               fn_code = fromAsset ''lambda'',
               fn_handler = ''hitcounter.handler'',
               fn_environment =
                 [(''HITS_TABLE_NAME'', tableName tbl),
                  (''DOWNSTREAM_FUNCTION_NAME'', functionName (downstream props))]\<rparr> st1;
          st3 = grantReadWriteData tbl fn st2;
          st4 = grantInvoke (downstream props) fn st3
      in (\<lparr>handler = fn, table = tbl\<rparr>, st4))"

section \<open>The hit-counter stacks\<close>

text \<open>
  Two classes are named \<^verbatim>\<open>HitCounterAppStack\<close>. The one that imports
  \<^verbatim>\<open>./hitcounter\<close> wraps a greeting function in a \<^verbatim>\<open>HitCounter\<close>; it keeps the name.
  The one in \<^verbatim>\<open>hit-counter-app/lib/hit-counter-app-stack.ts\<close> creates the table and
  the counting function itself and has no downstream function; it is
  \<open>HitCounterAppStack_standalone\<close> here.
\<close>

text \<open>The inline code of the function \<^verbatim>\<open>HelloHandler\<close>, and the response type it uses.\<close>

record response =
  statusCode :: int
  body :: string

definition HelloHandler_code :: string where
  \<open>HelloHandler_code =
     ''exports.handler = async () => { return { statusCode: 200, body: "Hello Architect!" }; };''\<close>

text \<open>
  The handler that the inline code exports: it takes no argument, so it ignores the
  request, and it returns the same record every time without raising.
\<close>

definition HelloHandler :: "'a event_scheme \<Rightarrow> 'x + response" where
  "HelloHandler ev = Inr \<lparr>statusCode = 200, body = ''Hello Architect!''\<rparr>"

definition HitCounterAppStack :: "construct_path \<Rightarrow> string \<Rightarrow> Stack" where
  "HitCounterAppStack scope cid =
     (let this = scope @ [cid];
          st0 = new_Stack scope cid;
          (helloFn, st1) =
            new_Function this ''HelloHandler''
              \<lparr>fn_runtime = NODEJS_18_X,
               fn_code = fromInline HelloHandler_code,
               fn_handler = ''index.handler'',
               fn_environment = []\<rparr> st0;
          (helloWithCounter, st2) =
            HitCounter this ''HelloHitCounter'' \<lparr>downstream = helloFn\<rparr> st1;
          (endpoint, st3) =
            new_LambdaRestApi this ''Endpoint''
              \<lparr>api_handler = handler helloWithCounter, proxy = None\<rparr> st2
      in st3)"

definition HitCounterAppStack_standalone :: "construct_path \<Rightarrow> string \<Rightarrow> Stack" where
  "HitCounterAppStack_standalone scope cid =
     (let this = scope @ [cid];
          st0 = new_Stack scope cid;
          (tbl, st1) =
            new_Table this ''Hits''
              \<lparr>partitionKey = \<lparr>attr_name = ''path'', attr_type = STRING\<rparr>,
               sortKey = None,
               removalPolicy = Some DESTROY,
               billingMode = None\<rparr> st0;
          (hitCounterFn, st2) =
            new_Function this ''HitCounterHandler''
              \<lparr>fn_runtime = NODEJS_18_X,
               fn_code = fromAsset ''lambda'',
               fn_handler = ''hitcounter.handler'',
               fn_environment = [(''HITS_TABLE_NAME'', tableName tbl)]\<rparr> st1;
          st3 = grantReadWriteData tbl hitCounterFn st2;
          (endpoint, st4) =
            new_LambdaRestApi this ''Endpoint''
              \<lparr>api_handler = hitCounterFn, proxy = None\<rparr> st3
      in st4)"

text \<open>
  The forwarder is recognised by what it runs: the asset \<^verbatim>\<open>lambda\<close> with entry point
  \<^verbatim>\<open>hitcounter.handler\<close>.
\<close>

definition is_forwarder :: "Function \<Rightarrow> bool" where
  "is_forwarder f =
     (fn_code (fn_props f) = fromAsset ''lambda'' \<and>
      fn_handler (fn_props f) = ''hitcounter.handler'')"

definition forwarders :: "Stack \<Rightarrow> construct_path list" where
  "forwarders st = map fn_path (filter is_forwarder (lambda_functions st))"

text \<open>The value of an environment variable of the function at a path, if both exist.\<close>

definition env_of :: "Stack \<Rightarrow> construct_path \<Rightarrow> string \<Rightarrow> token option" where
  "env_of st f name =
     (case find (\<lambda>g. fn_path g = f) (lambda_functions st) of
        None \<Rightarrow> None
      | Some g \<Rightarrow> map_of (fn_environment (fn_props g)) name)"

text \<open>
  A forwarder is configured with both identifiers when \<^verbatim>\<open>HITS_TABLE_NAME\<close> is the
  deployment-time name of a table of the stack and \<^verbatim>\<open>DOWNSTREAM_FUNCTION_NAME\<close> is
  the deployment-time name of a function of the stack.
\<close>

definition store_configured :: "Stack \<Rightarrow> construct_path \<Rightarrow> bool" where
  "store_configured st f =
     list_ex (\<lambda>t. env_of st f ''HITS_TABLE_NAME'' = Some (TableName (table_path t)))
       (tables st)"

definition downstream_configured :: "Stack \<Rightarrow> construct_path \<Rightarrow> bool" where
  "downstream_configured st f =
     list_ex (\<lambda>g. env_of st f ''DOWNSTREAM_FUNCTION_NAME'' = Some (FunctionName (fn_path g)))
       (lambda_functions st)"

section \<open>The EC2 two-tier stack\<close>

definition Ec2ClassicStack :: "construct_path \<Rightarrow> string \<Rightarrow> Stack" where
  \<open>Ec2ClassicStack scope cid =
     (let this = scope @ [cid];
          st0 = new_Stack scope cid;
          (vpc, st1) =
            new_Vpc this ''MyLabVPC''
              \<lparr>ipAddresses = ''10.0.0.0/16'',
               maxAzs = 2,
               subnetConfiguration =
                 [\<lparr>cidrMask = 24, subnet_name = ''PublicSubnet'', subnetType = PUBLIC\<rparr>],
               natGateways = 0\<rparr> st0;
          (frontendSG, st2) =
            new_SecurityGroup this ''FrontendSG'' vpc ''Allow HTTP access from world'' st1;
          st3 = addIngressRule frontendSG anyIpv4 (tcp 80) ''Allow HTTP from anywhere'' st2;
          (backendSG, st4) =
            new_SecurityGroup this ''BackendSG'' vpc ''Allow access only from Frontend'' st3;
          st5 = addIngressRule backendSG (SecurityGroupPeer frontendSG) (tcp 3000)
                  ''Allow Node traffic from Frontend'' st4;
          image = AmazonLinuxImage AMAZON_LINUX_2023;
          (backendServer, st6) =
            new_Instance this ''BackendServer''
              \<lparr>inst_vpc = vpc,
               vpcSubnets = PUBLIC,
               instanceType = (T2, MICRO),
               machineImage = image,
               securityGroup = backendSG,
               userData =
                 ['''',
                  ''        #!/bin/bash'',
                  ''        dnf install -y nodejs'',
                  ''        mkdir /opt/server'',
                  ''        echo "const http = require('http');'',
                  ''        const server = http.createServer((req, res) => {'',
                  ''          res.statusCode = 200;'',
                  ''          res.end('Hello from Backend EC2!');'',
                  ''        });'',
                  ''        server.listen(3000, '0.0.0.0');" > /opt/server/app.js'',
                  ''        # Starten im Hintergrund mit PM2 oder nohup (hier einfach nohup)'',
                  ''        nohup node /opt/server/app.js &'',
                  ''      '']\<rparr> st5;
          (frontendServer, st7) =
            new_Instance this ''FrontendServer''
              \<lparr>inst_vpc = vpc,
               vpcSubnets = PUBLIC,
               instanceType = (T2, MICRO),
               machineImage = image,
               securityGroup = frontendSG,
               userData =
                 ['''',
                  ''        #!/bin/bash'',
                  ''        dnf install -y httpd'',
                  ''        systemctl start httpd'',
                  ''        systemctl enable httpd'',
                  ''        echo "<h1>Hello from Frontend EC2</h1><p>I am the web server.</p>" > /var/www/html/index.html'',
                  ''      '']\<rparr> st6;
          st8 = new_CfnOutput this ''FrontendURL''
                  [Literal ''http://'', InstancePublicIp frontendServer] st7;
          st9 = new_CfnOutput this ''BackendIP'' [InstancePrivateIp backendServer] st8
      in st9)\<close>

section \<open>Properties of the forwarder\<close>

lemma forwarder_available:
  "forwarder None down ev s = (down ev, increment (path ev) s)"
  by (simp add: forwarder_def store_increment_def)

lemma forwarder_unavailable:
  "forwarder (Some e) down ev s = (Inl e, s)"
  by (simp add: forwarder_def store_increment_def)

lemma hits_increment_same: "hits (increment p s) p = hits s p + 1"
  by (simp add: hits_def increment_def split: option.split)

lemma increment_other: "p \<noteq> q \<Longrightarrow> increment p s q = s q"
  by (simp add: increment_def)

lemma hits_increment_other: "p \<noteq> q \<Longrightarrow> hits (increment p s) q = hits s q"
  by (simp add: hits_def increment_other)

lemma invocations_available_Cons:
  "snd (invocations down ((None, ev) # rest) s) =
     snd (invocations down rest (increment (path ev) s))"
  by (simp add: forwarder_available split: prod.split)

text \<open>
  After a sequence of invocations whose store writes all succeed, the count of a path has
  grown by the number of invocations for that path.
\<close>

lemma hits_invocations:
  "hits (snd (invocations down (map (Pair None) evs) s)) p =
     hits s p + int (length (filter (\<lambda>ev. path ev = p) evs))"
proof (induction evs arbitrary: s)
  case Nil
  show ?case by simp
next
  case (Cons ev evs)
  have "hits (snd (invocations down (map (Pair None) (ev # evs)) s)) p =
          hits (snd (invocations down (map (Pair None) evs) (increment (path ev) s))) p"
    by (simp only: list.map invocations_available_Cons)
  also have "\<dots> = hits (increment (path ev) s) p
                     + int (length (filter (\<lambda>ev. path ev = p) evs))"
    by (rule Cons.IH)
  also have "\<dots> = hits s p + int (length (filter (\<lambda>ev. path ev = p) (ev # evs)))"
    by (cases "path ev = p") (simp_all add: hits_increment_same hits_increment_other)
  finally show ?case .
qed

text \<open>
  Claim C1. The response the forwarder returns to its caller is exactly the response the
  downstream handler returns for the same request: with the store write accepted, the
  caller's result is the downstream handler's result (a response or the downstream
  handler's own failure), and whenever the caller gets a response at all, it is the
  downstream handler's response for that request. The result is the same for any two
  contents of the counter store, so it does not depend on the counter stored for the path
  now or before.
\<close>

theorem forwarder_returns_downstream_result:
  "fst (forwarder None down ev s) = down ev \<and>
   (fst (forwarder fault down ev s) = Inr r \<longrightarrow> down ev = Inr r) \<and>
   fst (forwarder fault down ev s) = fst (forwarder fault down ev s')"
  by (cases fault) (simp_all add: forwarder_available forwarder_unavailable)

theorem forwarder_returns_downstream_result_witness:
  "fst (forwarder (None :: unit option) (HelloHandler :: event \<Rightarrow> unit + response)
          \<lparr>path = ''/hello''\<rparr> Map.empty) =
     Inr \<lparr>statusCode = 200, body = ''Hello Architect!''\<rparr> \<and>
   (HelloHandler :: event \<Rightarrow> unit + response) \<lparr>path = ''/hello''\<rparr> =
     Inr \<lparr>statusCode = 200, body = ''Hello Architect!''\<rparr> \<and>
   fst (forwarder (None :: unit option) (HelloHandler :: event \<Rightarrow> unit + response)
          \<lparr>path = ''/hello''\<rparr> Map.empty) =
     fst (forwarder (None :: unit option) (HelloHandler :: event \<Rightarrow> unit + response)
            \<lparr>path = ''/hello''\<rparr> [''/hello'' \<mapsto> 7])"
proof -
  let ?d = "HelloHandler :: event \<Rightarrow> unit + response"
  let ?ev = "\<lparr>path = ''/hello''\<rparr>"
  let ?r = "\<lparr>statusCode = 200, body = ''Hello Architect!''\<rparr>"
  note inst =
    forwarder_returns_downstream_result [of ?d ?ev Map.empty None ?r "[''/hello'' \<mapsto> 7]"]
  have got: "fst (forwarder (None :: unit option) ?d ?ev Map.empty) = Inr ?r"
    by (simp add: forwarder_def store_increment_def HelloHandler_def)
  from inst got have same: "?d ?ev = Inr ?r"
    by blast
  from inst have indep:
    "fst (forwarder (None :: unit option) ?d ?ev Map.empty) =
       fst (forwarder (None :: unit option) ?d ?ev [''/hello'' \<mapsto> 7])"
    by blast
  from got same indep show ?thesis
    by blast
qed

text \<open>
  Claim C2. An invocation whose store write succeeds performs exactly one increment of the
  counter keyed by the request's path: the store it leaves is the old store with that one
  counter raised by one. The record is created on the first occurrence: a path without a
  record gets the count 1. Consequently, starting from a store with no record for a path
  \<open>p\<close>, after any sequence of invocations without store failures the count for \<open>p\<close>
  is the number \<open>n\<close> of invocations for \<open>p\<close> in the sequence, and for \<open>n > 0\<close>
  the stored record holds \<open>n\<close>.
\<close>

theorem forwarder_counts_invocations:
  assumes absent: "s p = None"
  shows "snd (forwarder None down ev s0) = increment (path ev) s0 \<and>
         hits (increment q s0) q = hits s0 q + 1 \<and>
         increment p s p = Some 1 \<and>
         hits (snd (invocations down (map (Pair None) evs) s)) p =
           int (length (filter (\<lambda>ev. path ev = p) evs)) \<and>
         (filter (\<lambda>ev. path ev = p) evs \<noteq> [] \<longrightarrow>
            snd (invocations down (map (Pair None) evs) s) p =
              Some (int (length (filter (\<lambda>ev. path ev = p) evs))))"
proof -
  let ?n = "int (length (filter (\<lambda>ev. path ev = p) evs))"
  let ?t = "snd (invocations down (map (Pair None) evs) s)"
  have one: "snd (forwarder None down ev s0) = increment (path ev) s0"
    by (simp add: forwarder_available)
  have first: "increment p s p = Some 1"
    using absent by (simp add: increment_def)
  have "hits s p = 0"
    using absent by (simp add: hits_def)
  then have count: "hits ?t p = ?n"
    by (simp add: hits_invocations)
  have stored: "?t p = Some ?n" if "filter (\<lambda>ev. path ev = p) evs \<noteq> []"
  proof (cases "?t p")
    case None
    then have "hits ?t p = 0" by (simp add: hits_def)
    with count that show ?thesis by simp
  next
    case (Some k)
    then have "hits ?t p = k" by (simp add: hits_def)
    with count Some show ?thesis by simp
  qed
  from one hits_increment_same first count stored show ?thesis by blast
qed

theorem forwarder_counts_invocations_witness:
  "(Map.empty :: hit_store) ''/a'' = None \<and>
   filter (\<lambda>ev. path ev = ''/a'') [\<lparr>path = ''/a''\<rparr>, \<lparr>path = ''/b''\<rparr>, \<lparr>path = ''/a''\<rparr>] \<noteq> [] \<and>
   hits (snd (invocations (HelloHandler :: event \<Rightarrow> unit + response)
          (map (Pair None) [\<lparr>path = ''/a''\<rparr>, \<lparr>path = ''/b''\<rparr>, \<lparr>path = ''/a''\<rparr>]) Map.empty)) ''/a'' = 2 \<and>
   snd (invocations (HelloHandler :: event \<Rightarrow> unit + response)
          (map (Pair None) [\<lparr>path = ''/a''\<rparr>, \<lparr>path = ''/b''\<rparr>, \<lparr>path = ''/a''\<rparr>]) Map.empty) ''/a'' = Some 2"
proof -
  have absent: "(Map.empty :: hit_store) ''/a'' = None" by simp
  show ?thesis
    using forwarder_counts_invocations [OF absent, where evs = "[\<lparr>path = ''/a''\<rparr>, \<lparr>path = ''/b''\<rparr>, \<lparr>path = ''/a''\<rparr>]"
        and down = "HelloHandler :: event \<Rightarrow> unit + response"]
    by simp
qed

text \<open>
  Claim C3. For distinct paths \<open>p1\<close> and \<open>p2\<close>, an invocation of the forwarder for
  \<open>p1\<close> leaves the stored counter for \<open>p2\<close> as it was, whether or not the store
  write succeeds.
\<close>

theorem forwarder_leaves_other_paths:
  "p1 \<noteq> p2 \<Longrightarrow> path ev = p1 \<Longrightarrow> snd (forwarder fault down ev s) p2 = s p2"
  by (cases fault) (simp_all add: forwarder_available forwarder_unavailable increment_other)

theorem forwarder_leaves_other_paths_witness:
  "''/a'' \<noteq> ''/b'' \<and> path \<lparr>path = ''/a''\<rparr> = ''/a'' \<and>
   snd (forwarder (None :: unit option) (HelloHandler :: event \<Rightarrow> unit + response)
          \<lparr>path = ''/a''\<rparr> [''/b'' \<mapsto> 5]) ''/b'' = Some 5"
proof -
  have d: "''/a'' \<noteq> ''/b''" by simp
  have e: "path \<lparr>path = ''/a''\<rparr> = ''/a''" by simp
  show ?thesis
    using d e forwarder_leaves_other_paths [OF d e, of None HelloHandler "[''/b'' \<mapsto> 5]"]
    by simp
qed

section \<open>What the constructors build\<close>

lemmas ctor_defs = new_Stack_def new_Table_def new_Function_def new_LambdaRestApi_def
  new_Vpc_def new_SecurityGroup_def new_Instance_def new_CfnOutput_def tableName_def
  functionName_def grantReadWriteData_def grantInvoke_def addIngressRule_def

lemma HitCounter_handle:
  "fst (HitCounter scope cid props st) =
     \<lparr>handler = scope @ [cid, ''HitCounterHandler''], table = scope @ [cid, ''Hits'']\<rparr>"
  by (simp add: HitCounter_def ctor_defs Let_def)

lemma HitCounter_tables:
  "tables (snd (HitCounter scope cid props st)) =
     tables st @
       [\<lparr>table_path = scope @ [cid, ''Hits''],
         table_props =
           \<lparr>partitionKey = \<lparr>attr_name = ''path'', attr_type = STRING\<rparr>, sortKey = None,
            removalPolicy = Some DESTROY, billingMode = Some PAY_PER_REQUEST\<rparr>\<rparr>]"
  by (simp add: HitCounter_def ctor_defs Let_def)

lemma HitCounter_functions:
  "lambda_functions (snd (HitCounter scope cid props st)) =
     lambda_functions st @
       [\<lparr>fn_path = scope @ [cid, ''HitCounterHandler''],
         fn_props =
           \<lparr>fn_runtime = NODEJS_18_X, fn_code = fromAsset ''lambda'',
            fn_handler = ''hitcounter.handler'',
            fn_environment =
              [(''HITS_TABLE_NAME'', TableName (scope @ [cid, ''Hits''])),
               (''DOWNSTREAM_FUNCTION_NAME'', FunctionName (downstream props))]\<rparr>\<rparr>]"
  by (simp add: HitCounter_def ctor_defs Let_def)

lemma HitCounter_adds_grants:
  "grants (snd (HitCounter scope cid props st)) =
     grants st @
       [\<lparr>grantee = scope @ [cid, ''HitCounterHandler''], resource = scope @ [cid, ''Hits''],
         permissions = [ReadData, WriteData]\<rparr>,
        \<lparr>grantee = scope @ [cid, ''HitCounterHandler''], resource = downstream props,
         permissions = [InvokeFunction]\<rparr>]"
  by (simp add: HitCounter_def ctor_defs Let_def)

lemma HitCounter_restApis:
  "restApis (snd (HitCounter scope cid props st)) = restApis st"
  by (simp add: HitCounter_def ctor_defs Let_def)


lemma HitCounterAppStack_eval:
  "HitCounterAppStack scope cid =
     snd (new_LambdaRestApi (scope @ [cid]) ''Endpoint''
            \<lparr>api_handler = scope @ [cid, ''HelloHitCounter'', ''HitCounterHandler''],
             proxy = None\<rparr>
            (snd (HitCounter (scope @ [cid]) ''HelloHitCounter''
                    \<lparr>downstream = scope @ [cid, ''HelloHandler'']\<rparr>
                    (snd (new_Function (scope @ [cid]) ''HelloHandler''
                            \<lparr>fn_runtime = NODEJS_18_X, fn_code = fromInline HelloHandler_code,
                             fn_handler = ''index.handler'', fn_environment = []\<rparr>
                            (new_Stack scope cid))))))"
  by (simp add: HitCounterAppStack_def Let_def split_beta HitCounter_handle new_Function_def
      new_LambdaRestApi_def)

lemma HitCounterAppStack_functions:
  "lambda_functions (HitCounterAppStack scope cid) =
     [\<lparr>fn_path = scope @ [cid, ''HelloHandler''],
       fn_props =
         \<lparr>fn_runtime = NODEJS_18_X, fn_code = fromInline HelloHandler_code,
          fn_handler = ''index.handler'', fn_environment = []\<rparr>\<rparr>,
      \<lparr>fn_path = scope @ [cid, ''HelloHitCounter'', ''HitCounterHandler''],
       fn_props =
         \<lparr>fn_runtime = NODEJS_18_X, fn_code = fromAsset ''lambda'',
          fn_handler = ''hitcounter.handler'',
          fn_environment =
            [(''HITS_TABLE_NAME'', TableName (scope @ [cid, ''HelloHitCounter'', ''Hits''])),
             (''DOWNSTREAM_FUNCTION_NAME'', FunctionName (scope @ [cid, ''HelloHandler'']))]\<rparr>\<rparr>]"
  by (simp add: HitCounterAppStack_eval new_LambdaRestApi_def HitCounter_functions
      new_Function_def new_Stack_def)

lemma HitCounterAppStack_tables:
  "tables (HitCounterAppStack scope cid) =
     [\<lparr>table_path = scope @ [cid, ''HelloHitCounter'', ''Hits''],
       table_props =
         \<lparr>partitionKey = \<lparr>attr_name = ''path'', attr_type = STRING\<rparr>, sortKey = None,
          removalPolicy = Some DESTROY, billingMode = Some PAY_PER_REQUEST\<rparr>\<rparr>]"
  by (simp add: HitCounterAppStack_eval new_LambdaRestApi_def HitCounter_tables
      new_Function_def new_Stack_def)

lemma HitCounterAppStack_restApis:
  "restApis (HitCounterAppStack scope cid) =
     [\<lparr>api_path = scope @ [cid, ''Endpoint''],
       api_props =
         \<lparr>api_handler = scope @ [cid, ''HelloHitCounter'', ''HitCounterHandler''],
          proxy = None\<rparr>\<rparr>]"
  by (simp add: HitCounterAppStack_eval new_LambdaRestApi_def HitCounter_restApis
      new_Function_def new_Stack_def)

lemma standalone_functions:
  "lambda_functions (HitCounterAppStack_standalone scope cid) =
     [\<lparr>fn_path = scope @ [cid, ''HitCounterHandler''],
       fn_props =
         \<lparr>fn_runtime = NODEJS_18_X, fn_code = fromAsset ''lambda'',
          fn_handler = ''hitcounter.handler'',
          fn_environment = [(''HITS_TABLE_NAME'', TableName (scope @ [cid, ''Hits'']))]\<rparr>\<rparr>]"
  by (simp add: HitCounterAppStack_standalone_def ctor_defs Let_def)

lemma standalone_tables:
  "tables (HitCounterAppStack_standalone scope cid) =
     [\<lparr>table_path = scope @ [cid, ''Hits''],
       table_props =
         \<lparr>partitionKey = \<lparr>attr_name = ''path'', attr_type = STRING\<rparr>, sortKey = None,
          removalPolicy = Some DESTROY, billingMode = None\<rparr>\<rparr>]"
  by (simp add: HitCounterAppStack_standalone_def ctor_defs Let_def)

lemma standalone_restApis:
  "restApis (HitCounterAppStack_standalone scope cid) =
     [\<lparr>api_path = scope @ [cid, ''Endpoint''],
       api_props = \<lparr>api_handler = scope @ [cid, ''HitCounterHandler''], proxy = None\<rparr>\<rparr>]"
  by (simp add: HitCounterAppStack_standalone_def ctor_defs Let_def)

lemma Ec2ClassicStack_securityGroups:
  "securityGroups (Ec2ClassicStack scope cid) =
     [\<lparr>sg_path = scope @ [cid, ''FrontendSG''], sg_vpc = scope @ [cid, ''MyLabVPC''],
       sg_description = ''Allow HTTP access from world'',
       ingress =
         [\<lparr>peer = CidrIPv4 0 0, connection = \<lparr>protocol = TCP, fromPort = 80, toPort = 80\<rparr>,
           rule_description = ''Allow HTTP from anywhere''\<rparr>]\<rparr>,
      \<lparr>sg_path = scope @ [cid, ''BackendSG''], sg_vpc = scope @ [cid, ''MyLabVPC''],
       sg_description = ''Allow access only from Frontend'',
       ingress =
         [\<lparr>peer = SecurityGroupPeer (scope @ [cid, ''FrontendSG'']),
           connection = \<lparr>protocol = TCP, fromPort = 3000, toPort = 3000\<rparr>,
           rule_description = ''Allow Node traffic from Frontend''\<rparr>]\<rparr>]"
  by (simp add: Ec2ClassicStack_def ctor_defs anyIpv4_def tcp_def Let_def)

lemma Ec2ClassicStack_instance_groups:
  "map (\<lambda>i. (inst_path i, securityGroup (inst_props i))) (instances (Ec2ClassicStack scope cid)) =
     [(scope @ [cid, ''BackendServer''], scope @ [cid, ''BackendSG'']),
      (scope @ [cid, ''FrontendServer''], scope @ [cid, ''FrontendSG''])]"
  by (simp add: Ec2ClassicStack_def ctor_defs anyIpv4_def tcp_def Let_def)

text \<open>
  Claim C7. The handler of the inline code returns status 200 with body
  \<^verbatim>\<open>Hello Architect!\<close> for every request. In the hit-counter stack this code is the
  function \<^verbatim>\<open>HelloHandler\<close>, whose deployment-time name the forwarder is given as its
  downstream function. Three invocations for \<^verbatim>\<open>/hello\<close> on an empty store, whatever
  else the requests hold, return that response each time and leave the store holding
  exactly the count 3 for \<^verbatim>\<open>/hello\<close>.
\<close>

theorem hello_three_times:
  "HelloHandler ev = Inr \<lparr>statusCode = 200, body = ''Hello Architect!''\<rparr> \<and>
   map (\<lambda>f. (fn_path f, fn_code (fn_props f))) (lambda_functions (HitCounterAppStack scope cid)) =
     [(scope @ [cid, ''HelloHandler''], fromInline HelloHandler_code),
      (scope @ [cid, ''HelloHitCounter'', ''HitCounterHandler''], fromAsset ''lambda'')] \<and>
   env_of (HitCounterAppStack scope cid) (scope @ [cid, ''HelloHitCounter'', ''HitCounterHandler''])
       ''DOWNSTREAM_FUNCTION_NAME'' = Some (FunctionName (scope @ [cid, ''HelloHandler''])) \<and>
   invocations HelloHandler
       [(None, e1\<lparr>path := ''/hello''\<rparr>), (None, e2\<lparr>path := ''/hello''\<rparr>),
        (None, e3\<lparr>path := ''/hello''\<rparr>)] Map.empty =
     ([Inr \<lparr>statusCode = 200, body = ''Hello Architect!''\<rparr>,
       Inr \<lparr>statusCode = 200, body = ''Hello Architect!''\<rparr>,
       Inr \<lparr>statusCode = 200, body = ''Hello Architect!''\<rparr>],
      [''/hello'' \<mapsto> 3])"
  by (simp add: HelloHandler_def HitCounterAppStack_functions env_of_def forwarder_available
      increment_def)

text \<open>
  Claim C4. In both hit-counter stacks the only REST API routes every method and path to
  the forwarder's function. In the stack with a downstream function, that function is
  \<^verbatim>\<open>HelloHandler\<close>, and no request is routed to it directly.
\<close>

theorem rest_api_routes_to_forwarder:
  "map (\<lambda>api. route api method rpath) (restApis (HitCounterAppStack scope cid)) =
     [Some (scope @ [cid, ''HelloHitCounter'', ''HitCounterHandler''])] \<and>
   forwarders (HitCounterAppStack scope cid) =
     [scope @ [cid, ''HelloHitCounter'', ''HitCounterHandler'']] \<and>
   env_of (HitCounterAppStack scope cid) (scope @ [cid, ''HelloHitCounter'', ''HitCounterHandler''])
       ''DOWNSTREAM_FUNCTION_NAME'' = Some (FunctionName (scope @ [cid, ''HelloHandler''])) \<and>
   Some (scope @ [cid, ''HelloHandler'']) \<notin>
     set (map (\<lambda>api. route api method rpath) (restApis (HitCounterAppStack scope cid))) \<and>
   map (\<lambda>api. route api method rpath) (restApis (HitCounterAppStack_standalone scope cid)) =
     [Some (scope @ [cid, ''HitCounterHandler''])] \<and>
   forwarders (HitCounterAppStack_standalone scope cid) = [scope @ [cid, ''HitCounterHandler'']]"
  by (simp add: HitCounterAppStack_restApis HitCounterAppStack_functions standalone_restApis
      standalone_functions route_def forwarders_def is_forwarder_def env_of_def)

text \<open>
  Claim C5 as stated fails: the standalone stack constructs the forwarder and gives it no
  \<^verbatim>\<open>DOWNSTREAM_FUNCTION_NAME\<close>.
\<close>

theorem standalone_has_no_downstream_name:
  "forwarders (HitCounterAppStack_standalone [] ''HitCounterAppStack'') =
     [[''HitCounterAppStack'', ''HitCounterHandler'']] \<and>
   env_of (HitCounterAppStack_standalone [] ''HitCounterAppStack'')
     [''HitCounterAppStack'', ''HitCounterHandler''] ''DOWNSTREAM_FUNCTION_NAME'' = None \<and>
   \<not> downstream_configured (HitCounterAppStack_standalone [] ''HitCounterAppStack'')
       [''HitCounterAppStack'', ''HitCounterHandler'']"
  by (simp add: standalone_functions forwarders_def is_forwarder_def env_of_def
      downstream_configured_def)

text \<open>
  Claim C5, amended. Every \<^verbatim>\<open>HitCounter\<close> gives the function it creates both
  \<^verbatim>\<open>HITS_TABLE_NAME\<close>, the deployment-time name of the table it created, and
  \<^verbatim>\<open>DOWNSTREAM_FUNCTION_NAME\<close>, the deployment-time name of the downstream function of
  its props; so the forwarder of the stack that wraps \<^verbatim>\<open>HelloHandler\<close> has both,
  naming a table and a function of that stack. The standalone stack, which creates no
  downstream function, gives its forwarder \<^verbatim>\<open>HITS_TABLE_NAME\<close>, the deployment-time
  name of its table, and no \<^verbatim>\<open>DOWNSTREAM_FUNCTION_NAME\<close>. No value is a literal.
\<close>

theorem forwarder_configuration:
  "fn_path (last (lambda_functions (snd (HitCounter scope cid props st)))) =
     handler (fst (HitCounter scope cid props st)) \<and>
   fn_environment (fn_props (last (lambda_functions (snd (HitCounter scope cid props st))))) =
     [(''HITS_TABLE_NAME'', TableName (table (fst (HitCounter scope cid props st)))),
      (''DOWNSTREAM_FUNCTION_NAME'', FunctionName (downstream props))] \<and>
   forwarders (HitCounterAppStack scope cid) =
     [scope @ [cid, ''HelloHitCounter'', ''HitCounterHandler'']] \<and>
   env_of (HitCounterAppStack scope cid) (scope @ [cid, ''HelloHitCounter'', ''HitCounterHandler''])
       ''HITS_TABLE_NAME'' = Some (TableName (scope @ [cid, ''HelloHitCounter'', ''Hits''])) \<and>
   env_of (HitCounterAppStack scope cid) (scope @ [cid, ''HelloHitCounter'', ''HitCounterHandler''])
       ''DOWNSTREAM_FUNCTION_NAME'' = Some (FunctionName (scope @ [cid, ''HelloHandler''])) \<and>
   store_configured (HitCounterAppStack scope cid)
     (scope @ [cid, ''HelloHitCounter'', ''HitCounterHandler'']) \<and>
   downstream_configured (HitCounterAppStack scope cid)
     (scope @ [cid, ''HelloHitCounter'', ''HitCounterHandler'']) \<and>
   forwarders (HitCounterAppStack_standalone scope cid) = [scope @ [cid, ''HitCounterHandler'']] \<and>
   env_of (HitCounterAppStack_standalone scope cid) (scope @ [cid, ''HitCounterHandler''])
       ''HITS_TABLE_NAME'' = Some (TableName (scope @ [cid, ''Hits''])) \<and>
   store_configured (HitCounterAppStack_standalone scope cid) (scope @ [cid, ''HitCounterHandler'']) \<and>
   env_of (HitCounterAppStack_standalone scope cid) (scope @ [cid, ''HitCounterHandler''])
       ''DOWNSTREAM_FUNCTION_NAME'' = None"
  by (simp add: HitCounter_handle HitCounter_functions HitCounterAppStack_functions
      HitCounterAppStack_tables standalone_functions standalone_tables forwarders_def
      is_forwarder_def env_of_def store_configured_def downstream_configured_def)

text \<open>
  Claim C6. Every counter table is keyed by the request path alone: the table a
  \<^verbatim>\<open>HitCounter\<close> adds, whatever its arguments, and the one table of each hit-counter
  stack declare exactly one key attribute, the partition key \<^verbatim>\<open>path\<close> of type string.
  The EC2 stack constructs no table.
\<close>

theorem counter_tables_keyed_by_path:
  "map keySchema (tables (snd (HitCounter scope cid props st))) =
     map keySchema (tables st) @ [[\<lparr>attr_name = ''path'', attr_type = STRING\<rparr>]] \<and>
   map keySchema (tables (HitCounterAppStack scope cid)) =
     [[\<lparr>attr_name = ''path'', attr_type = STRING\<rparr>]] \<and>
   map keySchema (tables (HitCounterAppStack_standalone scope cid)) =
     [[\<lparr>attr_name = ''path'', attr_type = STRING\<rparr>]] \<and>
   tables (Ec2ClassicStack scope cid) = []"
  by (simp add: HitCounter_tables HitCounterAppStack_tables standalone_tables keySchema_def
      Ec2ClassicStack_def ctor_defs Let_def)

text \<open>
  Claim C9. Every construction of a \<^verbatim>\<open>HitCounter\<close>, whatever its scope, identifier,
  props and the tree before it, leaves its handler function with read and with write
  access to the table it created and with the right to invoke the downstream function of
  its props.
\<close>

theorem HitCounter_grants_access:
  "table (fst (HitCounter scope cid props st)) \<in>
     table_path ` set (tables (snd (HitCounter scope cid props st))) \<and>
   handler (fst (HitCounter scope cid props st)) \<in>
     fn_path ` set (lambda_functions (snd (HitCounter scope cid props st))) \<and>
   allowed (snd (HitCounter scope cid props st)) (handler (fst (HitCounter scope cid props st)))
     ReadData (table (fst (HitCounter scope cid props st))) \<and>
   allowed (snd (HitCounter scope cid props st)) (handler (fst (HitCounter scope cid props st)))
     WriteData (table (fst (HitCounter scope cid props st))) \<and>
   allowed (snd (HitCounter scope cid props st)) (handler (fst (HitCounter scope cid props st)))
     InvokeFunction (downstream props)"
  by (simp add: HitCounter_handle HitCounter_tables HitCounter_functions HitCounter_adds_grants
      allowed_def)

text \<open>
  Claim C10. In the EC2 stack the frontend security group admits a packet exactly when it
  is TCP to port 80, whatever its IPv4 source address. The backend security group has one
  ingress rule, TCP port 3000 from the frontend security group, and admits a packet
  exactly when it is TCP to port 3000 and its sender belongs to the frontend security
  group; the source address plays no part. The frontend server belongs to the frontend
  group and the backend server to the backend group.
\<close>

theorem Ec2ClassicStack_ingress:
  "sg_admits (Ec2ClassicStack scope cid) (scope @ [cid, ''FrontendSG'']) pkt =
     (pkt_protocol pkt = TCP \<and> pkt_port pkt = 80) \<and>
   sg_admits (Ec2ClassicStack scope cid) (scope @ [cid, ''BackendSG'']) pkt =
     (pkt_protocol pkt = TCP \<and> pkt_port pkt = 3000 \<and>
      scope @ [cid, ''FrontendSG''] \<in> set (src_groups pkt)) \<and>
   map (\<lambda>g. (sg_path g, map (\<lambda>r. (peer r, connection r)) (ingress g)))
       (securityGroups (Ec2ClassicStack scope cid)) =
     [(scope @ [cid, ''FrontendSG''], [(anyIpv4, tcp 80)]),
      (scope @ [cid, ''BackendSG''], [(SecurityGroupPeer (scope @ [cid, ''FrontendSG'']), tcp 3000)])] \<and>
   map (\<lambda>i. (inst_path i, securityGroup (inst_props i))) (instances (Ec2ClassicStack scope cid)) =
     [(scope @ [cid, ''BackendServer''], scope @ [cid, ''BackendSG'']),
      (scope @ [cid, ''FrontendServer''], scope @ [cid, ''FrontendSG''])]"
  by (auto simp add: Ec2ClassicStack_securityGroups Ec2ClassicStack_instance_groups sg_admits_def
      admits_def peer_matches_def port_matches_def anyIpv4_def tcp_def)

end
